theory Spec2Isabelle
  imports Complex_Main "HOL-Library.Word"
begin

section \<open>Values of the JavaScript runtime\<close>

text \<open>
  The client is TypeScript on Node. Gateway responses are parsed JSON of type \<open>any\<close>, so
  they are modelled as a datatype of JSON values; \<open>undefined\<close> is \<open>None\<close> of
  \<open>json option\<close>. Strings are byte strings in UTF-8. Numbers are the rationals they
  denote (IEEE-754 rounding is outside the model), so the nonce and the timestamp, both of
  TypeScript type \<open>number\<close>, have type \<open>rat\<close>.
\<close>

type_synonym byte = "8 word"

datatype json =
    JNull
  | JBool bool
  | JNum rat
  | JStr string
  | JArr "json list"
  | JObj "(string \<times> json) list"

datatype error =
    Error string "json option"   \<comment> \<open>\<open>new Error(message, options)\<close>: the message and the cause\<close>
  | TypeError string             \<comment> \<open>a property read on \<open>null\<close>\<close>
  | AxiosError string            \<comment> \<open>a request that got no response\<close>

text \<open>Reading a property of a response: \<open>null.k\<close> throws, a missing property is
  \<open>undefined\<close>, and so is any of the property names used here on a string, number,
  boolean or array.\<close>

fun get_prop :: "json \<Rightarrow> string \<Rightarrow> error + json option" where
  "get_prop JNull k = Inl (TypeError (''Cannot read properties of null (reading '' @ k @ '')''))"
| "get_prop (JObj kvs) k = Inr (map_of kvs k)"
| "get_prop _ k = Inr None"

text \<open>The second argument of \<open>new Error\<close> is an options object: only its
  \<open>cause\<close> property is read, and only when the argument is an object.\<close>

fun error_cause :: "json \<Rightarrow> json option" where
  "error_cause (JObj kvs) = map_of kvs ''cause''"
| "error_cause _ = None"

subsection \<open>Printing numbers and strings\<close>

definition digit_char :: "nat \<Rightarrow> char" where
  "digit_char d = char_of (48 + d)"

function nat_to_string :: "nat \<Rightarrow> string" where
  "nat_to_string n =
     (if n < 10 then [digit_char n] else nat_to_string (n div 10) @ [digit_char (n mod 10)])"
  by pat_completeness auto
termination
  by (relation "measure id") auto

declare nat_to_string.simps [simp del]

text \<open>
  \<open>Number::toString\<close>, in plain decimal notation: the digits of the integer part, then the
  digits after the decimal point by long division, at most \<open>fuel\<close> of them. This is what the
  runtime prints for the numbers this client handles, whole nonces and timestamps in
  thousandths of a second; exponent notation, for very large and very small numbers, is not
  modelled.
\<close>

fun frac_digits :: "nat \<Rightarrow> rat \<Rightarrow> string" where
  "frac_digits 0 x = []"
| "frac_digits (Suc fuel) x =
     (if x = 0 then []
      else digit_char (nat \<lfloor>x * 10\<rfloor>) # frac_digits fuel (x * 10 - of_int \<lfloor>x * 10\<rfloor>))"

definition number_to_string :: "rat \<Rightarrow> string" where
  "number_to_string x =
     (let a = \<bar>x\<bar>; i = \<lfloor>a\<rfloor>; f = a - of_int i
      in (if x < 0 then ''-'' else '''') @ nat_to_string (nat i) @
         (if f = 0 then '''' else ''.'' @ frac_digits 20 f))"

definition hex_char :: "nat \<Rightarrow> char" where
  "hex_char d = (if d < 10 then char_of (48 + d) else char_of (87 + d))"

text \<open>\<open>JSON.stringify\<close> on a string: quotes, with the escapes of QuoteJSONString.\<close>

definition quote_char :: "char \<Rightarrow> string" where
  "quote_char c =
     (if c = CHR 0x22 then [CHR 0x5C, CHR 0x22]
      else if c = CHR 0x5C then [CHR 0x5C, CHR 0x5C]
      else if c = CHR 0x08 then [CHR 0x5C, CHR ''b'']
      else if c = CHR 0x0C then [CHR 0x5C, CHR ''f'']
      else if c = CHR 0x0A then [CHR 0x5C, CHR ''n'']
      else if c = CHR 0x0D then [CHR 0x5C, CHR ''r'']
      else if c = CHR 0x09 then [CHR 0x5C, CHR ''t'']
      else if (of_char c :: nat) < 32
        then [CHR 0x5C, CHR ''u'', CHR ''0'', CHR ''0'',
              hex_char (of_char c div 16), hex_char (of_char c mod 16)]
      else [c])"

definition quote :: "string \<Rightarrow> string" where
  "quote s = [CHR 0x22] @ concat (map quote_char s) @ [CHR 0x22]"

fun join :: "string \<Rightarrow> string list \<Rightarrow> string" where
  "join sep [] = []"
| "join sep [x] = x"
| "join sep (x # y # ys) = x @ sep @ join sep (y # ys)"

fun JSON_stringify :: "json \<Rightarrow> string"
  and stringify_elems :: "json list \<Rightarrow> string list"
  and stringify_members :: "(string \<times> json) list \<Rightarrow> string list" where
  "JSON_stringify JNull = ''null''"
| "JSON_stringify (JBool b) = (if b then ''true'' else ''false'')"
| "JSON_stringify (JNum n) = number_to_string n"
| "JSON_stringify (JStr s) = quote s"
| "JSON_stringify (JArr xs) = ''['' @ join '','' (stringify_elems xs) @ '']''"
| "JSON_stringify (JObj kvs) = ''{'' @ join '','' (stringify_members kvs) @ ''}''"
| "stringify_elems [] = []"
| "stringify_elems (x # xs) = JSON_stringify x # stringify_elems xs"
| "stringify_members [] = []"
| "stringify_members ((k, v) # kvs) = (quote k @ '':'' @ JSON_stringify v) # stringify_members kvs"

text \<open>A value inside a template literal: \<open>`${v}`\<close>.\<close>

fun to_string :: "json \<Rightarrow> string"
  and to_string_elems :: "json list \<Rightarrow> string list" where
  "to_string JNull = ''null''"
| "to_string (JBool b) = (if b then ''true'' else ''false'')"
| "to_string (JNum n) = number_to_string n"
| "to_string (JStr s) = s"
| "to_string (JArr xs) = join '','' (to_string_elems xs)"
| "to_string (JObj kvs) = ''[object Object]''"
| "to_string_elems [] = []"
| "to_string_elems (x # xs) = (if x = JNull then '''' else to_string x) # to_string_elems xs"

section \<open>The gateway and the world\<close>

datatype HttpMethod = GET | POST

record request =
  http_method :: HttpMethod
  url :: string
  data :: "json option"

text \<open>The field \<open>method\<close> of a request is \<open>http_method\<close> here. What axios does with a
  request: it resolves with \<open>response.data\<close>, or rejects with an error that carries the
  response and its body (\<open>err.response.data\<close>), or rejects with an error that has no
  response.\<close>

datatype outcome =
    Responded json
  | Refused json
  | Unreachable error

text \<open>A gateway answers a request knowing the requests it has received so far.\<close>

type_synonym gateway = "request list \<Rightarrow> request \<Rightarrow> outcome"

datatype event =
    ConsoleLog string
  | SpinnerStart string
  | SpinnerSucceed "string option"
  | SpinnerFail "string option"
  | SpinnerStop
  | Sleep nat

record world =
  sent :: "request list"     \<comment> \<open>the requests issued, oldest first\<close>
  events :: "event list"     \<comment> \<open>console and spinner output and timer waits, oldest first\<close>
  clock :: int               \<comment> \<open>what \<open>Date.now()\<close> returns, in milliseconds\<close>

definition api_call ::
  "gateway \<Rightarrow> HttpMethod \<Rightarrow> string \<Rightarrow> json option \<Rightarrow> world \<Rightarrow> (error + json) \<times> world" where
  "api_call gw m u d w =
     (let rq = \<lparr>http_method = m, url = u, data = d\<rparr>;
          w' = w\<lparr>sent := sent w @ [rq]\<rparr>
      in case gw (sent w) rq of
           Responded body \<Rightarrow> (Inr body, w')
         | Refused body \<Rightarrow> (Inl (Error ''api error: '' (error_cause body)), w')
         | Unreachable err \<Rightarrow> (Inl err, w'))"

text \<open>The \<open>api_call\<close> of \<open>src/main.ts\<close> puts the body into the message.\<close>

definition api_call_main ::
  "gateway \<Rightarrow> HttpMethod \<Rightarrow> string \<Rightarrow> json option \<Rightarrow> world \<Rightarrow> (error + json) \<times> world" where
  "api_call_main gw m u d w =
     (let rq = \<lparr>http_method = m, url = u, data = d\<rparr>;
          w' = w\<lparr>sent := sent w @ [rq]\<rparr>
      in case gw (sent w) rq of
           Responded body \<Rightarrow> (Inr body, w')
         | Refused body \<Rightarrow> (Inl (Error (''api error: '' @ to_string body) None), w')
         | Unreachable err \<Rightarrow> (Inl err, w'))"

section \<open>The contract client\<close>





section \<open>The signer\<close>

text \<open>
  The signature scheme is the library \<open>@noble/ed25519\<close>, which is not part of this
  repository: its functions \<open>sign\<close>, \<open>getPublicKey\<close> and \<open>verify\<close> are taken as a
  parameter. Each is a function of its arguments, as the scheme is deterministic, and the
  first two may throw.
\<close>

record ed25519 =
  ed_sign :: "byte list \<Rightarrow> byte list \<Rightarrow> error + byte list"      \<comment> \<open>message, secret key\<close>
  ed_getPublicKey :: "byte list \<Rightarrow> error + byte list"
  ed_verify :: "byte list \<Rightarrow> byte list \<Rightarrow> byte list \<Rightarrow> bool"      \<comment> \<open>signature, message, public key\<close>

text \<open>The fields \<open>from\<close> and \<open>to_\<close> of the interface \<open>Tx\<close> are \<open>tx_from\<close> and \<open>tx_to\<close> here.\<close>

record Tx =
  tx_from :: string
  tx_to :: string
  amount :: string
  nonce :: rat
  ou :: string
  timestamp :: rat

subsection \<open>Buffers and base64\<close>

text \<open>\<open>Buffer.from(s)\<close>: the bytes of the string in UTF-8.\<close>

definition Buffer_from :: "string \<Rightarrow> byte list" where
  "Buffer_from s = map (\<lambda>c. of_nat (of_char c)) s"

definition b64_char :: "nat \<Rightarrow> char" where
  "b64_char n =
     (if n < 26 then char_of (65 + n)
      else if n < 52 then char_of (71 + n)
      else if n < 62 then char_of (n - 4)
      else if n = 62 then CHR ''+'' else CHR ''/'')"

text \<open>\<open>buf.toString('base64')\<close>: three bytes give four characters, the rest is padded.\<close>

fun toString_base64 :: "byte list \<Rightarrow> string" where
  "toString_base64 [] = []"
| "toString_base64 [a] =
     [b64_char (unat a div 4), b64_char (unat a mod 4 * 16), CHR ''='', CHR ''='']"
| "toString_base64 [a, b] =
     [b64_char (unat a div 4), b64_char (unat a mod 4 * 16 + unat b div 16),
      b64_char (unat b mod 16 * 4), CHR ''='']"
| "toString_base64 (a # b # c # bs) =
     [b64_char (unat a div 4), b64_char (unat a mod 4 * 16 + unat b div 16),
      b64_char (unat b mod 16 * 4 + unat c div 64), b64_char (unat c mod 64)]
     @ toString_base64 bs"

text \<open>\<open>Buffer.from(s, 'base64')\<close> reads both alphabets, skips every other character
  and stops at the first \<open>=\<close>.\<close>

definition b64_value :: "char \<Rightarrow> nat option" where
  "b64_value c =
     (let n = (of_char c :: nat)
      in if 65 \<le> n \<and> n \<le> 90 then Some (n - 65)
         else if 97 \<le> n \<and> n \<le> 122 then Some (n - 71)
         else if 48 \<le> n \<and> n \<le> 57 then Some (n + 4)
         else if c = CHR ''+'' \<or> c = CHR ''-'' then Some 62
         else if c = CHR ''/'' \<or> c = CHR ''_'' then Some 63
         else None)"

fun sextets :: "string \<Rightarrow> nat list" where
  "sextets [] = []"
| "sextets (c # cs) =
     (if c = CHR ''='' then []
      else case b64_value c of None \<Rightarrow> sextets cs | Some v \<Rightarrow> v # sextets cs)"

fun from_sextets :: "nat list \<Rightarrow> byte list" where
  "from_sextets (p # q # r # s # vs) =
     [of_nat (p * 4 + q div 16), of_nat (q mod 16 * 16 + r div 4), of_nat (r mod 4 * 64 + s)]
     @ from_sextets vs"
| "from_sextets [p, q, r] = [of_nat (p * 4 + q div 16), of_nat (q mod 16 * 16 + r div 4)]"
| "from_sextets [p, q] = [of_nat (p * 4 + q div 16)]"
| "from_sextets _ = []"

definition base64ToUnit8Array :: "string \<Rightarrow> byte list" where
  "base64ToUnit8Array b64 = from_sextets (sextets b64)"

subsection \<open>Signing\<close>

text \<open>The object that \<open>sign_tx\<close> serializes: six properties copied from the transaction,
  in this order.\<close>

definition tx_object :: "'a Tx_scheme \<Rightarrow> json" where
  "tx_object tx =
     JObj [(''from'', JStr (tx_from tx)), (''to_'', JStr (tx_to tx)), (''amount'', JStr (amount tx)),
           (''nonce'', JNum (nonce tx)), (''ou'', JStr (ou tx)), (''timestamp'', JNum (timestamp tx))]"

definition sign_tx :: "ed25519 \<Rightarrow> byte list \<Rightarrow> 'a Tx_scheme \<Rightarrow> error + string" where
  "sign_tx ed sk tx =
     (let blob = JSON_stringify (tx_object tx)
      in case ed_sign ed (Buffer_from blob) sk of
           Inl e \<Rightarrow> Inl e
         | Inr sig \<Rightarrow> Inr (toString_base64 sig))"

section \<open>Submitting a call and waiting for it\<close>

definition call_request ::
  "string \<Rightarrow> string \<Rightarrow> string \<Rightarrow> string list \<Rightarrow> string \<Rightarrow> rat \<Rightarrow> rat \<Rightarrow> string \<Rightarrow> string
     \<Rightarrow> request" where
  "call_request api_url contract meth params address nonce' timestamp' signature public_key =
     \<lparr>http_method = POST, url = api_url @ ''/call-contract'',
      data = Some (JObj [(''contract'', JStr contract), (''method'', JStr meth),
                         (''params'', JArr (map JStr params)), (''caller'', JStr address),
                         (''nonce'', JNum nonce'), (''timestamp'', JNum timestamp'),
                         (''signature'', JStr signature), (''public_key'', JStr public_key)])\<rparr>"

definition console_log :: "string \<Rightarrow> world \<Rightarrow> world" where
  "console_log s w = w\<lparr>events := events w @ [ConsoleLog s]\<rparr>"

text \<open>The transaction object that \<open>call_contract\<close> fills in before it signs.\<close>

definition TxData :: "string \<Rightarrow> string \<Rightarrow> rat \<Rightarrow> world \<Rightarrow> Tx" where
  "TxData address contract nonce' w =
     \<lparr>tx_from = address, tx_to = contract, amount = ''0'', nonce = nonce' + 1,
      ou = ''1'', timestamp = of_int (clock w) / 1000\<rparr>"

definition call_contract ::
  "ed25519 \<Rightarrow> gateway \<Rightarrow> string \<Rightarrow> byte list \<Rightarrow> string \<Rightarrow> rat \<Rightarrow> string \<Rightarrow> string
     \<Rightarrow> string list \<Rightarrow> world \<Rightarrow> (error + json option) \<times> world" where
  "call_contract ed gw api_url sk address nonce' contract meth params w =
     (let tx = TxData address contract nonce' w;
          w1 = console_log (''Using nonce: '' @ number_to_string (nonce tx)) w
      in case sign_tx ed sk tx of
           Inl e \<Rightarrow> (Inl e, w1)
         | Inr signature \<Rightarrow>
             (case ed_getPublicKey ed sk of
                Inl e \<Rightarrow> (Inl e, w1)
              | Inr pk \<Rightarrow>
                  (let rq = call_request api_url contract meth params address
                              (nonce tx) (timestamp tx) signature (toString_base64 pk)
                   in case api_call gw (http_method rq) (url rq) (data rq) w1 of
                        (Inl e, w2) \<Rightarrow> (Inl e, w2)
                      | (Inr response, w2) \<Rightarrow>
                          (case get_prop response ''tx_hash'' of
                             Inl e \<Rightarrow> (Inl e, w2)
                           | Inr h \<Rightarrow> (Inr h, w2)))))"

definition createLoading :: "string \<Rightarrow> world \<Rightarrow> world" where
  "createLoading message w = w\<lparr>events := events w @ [SpinnerStart message]\<rparr>"

definition stopLoading :: "bool \<Rightarrow> string option \<Rightarrow> world \<Rightarrow> world" where
  "stopLoading success message w =
     w\<lparr>events := events w @
          [if success then SpinnerSucceed message else SpinnerFail message, SpinnerStop]\<rparr>"

definition sleep :: "nat \<Rightarrow> world \<Rightarrow> world" where
  "sleep ms w = w\<lparr>events := events w @ [Sleep ms]\<rparr>"

definition tx_request :: "string \<Rightarrow> string \<Rightarrow> request" where
  "tx_request api_url tx_hash = \<lparr>http_method = GET, url = api_url @ ''/tx/'' @ tx_hash, data = None\<rparr>"

text \<open>The loop of \<open>wait_for_tx\<close>, entered with the value of \<open>elapsed\<close>. It may run forever:
  \<open>None\<close> is the call that never returns. A budget is falsy when it is \<open>0\<close> (\<open>NaN\<close>, also
  falsy, has no rational to stand for it and behaves as \<open>0\<close> does).\<close>

partial_function (option) wait_loop ::
  "gateway \<Rightarrow> string \<Rightarrow> string \<Rightarrow> rat \<Rightarrow> nat \<Rightarrow> world \<Rightarrow> ((error + string) \<times> world) option" where
  "wait_loop gw api_url tx_hash max_wait_time elapsed w =
     (let elapsed' = elapsed + 1;
          rq = tx_request api_url tx_hash
      in case api_call gw (http_method rq) (url rq) (data rq) w of
           (Inl e, w1) \<Rightarrow> Some (Inl e, w1)
         | (Inr response, w1) \<Rightarrow>
             (case get_prop response ''status'' of
                Inl e \<Rightarrow> Some (Inl e, w1)
              | Inr st \<Rightarrow>
                  if st = Some (JStr ''confirmed'')
                  then Some (Inr tx_hash, stopLoading True (Some ''Transaction confirmed!'') w1)
                  else if max_wait_time \<noteq> 0 \<and> max_wait_time \<le> of_nat elapsed'
                  then Some (Inr tx_hash,
                         stopLoading False
                           (Some ''Transaction not confirmed within the maximum wait time.'') w1)
                  else wait_loop gw api_url tx_hash max_wait_time elapsed' (sleep 5000 w1)))"

text \<open>The budget is optional and defaults to 90.\<close>

definition wait_for_tx ::
  "gateway \<Rightarrow> string \<Rightarrow> string \<Rightarrow> rat option \<Rightarrow> world \<Rightarrow> ((error + string) \<times> world) option" where
  "wait_for_tx gw api_url tx_hash max_wait_time w =
     wait_loop gw api_url tx_hash (case max_wait_time of None \<Rightarrow> 90 | Some m \<Rightarrow> m) 0
       (createLoading ''Waiting for transaction confirmation...'' w)"

section \<open>Gateways and observations used in the statements\<close>

text \<open>What the gateway answers to a request after a given history: a JSON value with the
  given status, or any answer that the loop of \<open>wait_for_tx\<close> takes as not confirmed.\<close>

definition reports :: "gateway \<Rightarrow> request list \<Rightarrow> request \<Rightarrow> string \<Rightarrow> bool" where
  "reports gw history rq s \<longleftrightarrow>
     (case gw history rq of
        Responded r \<Rightarrow> get_prop r ''status'' = Inr (Some (JStr s))
      | _ \<Rightarrow> False)"

definition non_confirming :: "gateway \<Rightarrow> request list \<Rightarrow> request \<Rightarrow> bool" where
  "non_confirming gw history rq \<longleftrightarrow>
     (case gw history rq of
        Responded r \<Rightarrow>
          (case get_prop r ''status'' of
             Inr st \<Rightarrow> st \<noteq> Some (JStr ''confirmed'')
           | Inl e \<Rightarrow> False)
      | _ \<Rightarrow> False)"

text \<open>The world after \<open>k\<close> more requests \<open>rq\<close>, and after \<open>k\<close> more waits of five seconds.\<close>

definition polled :: "nat \<Rightarrow> request \<Rightarrow> world \<Rightarrow> world" where
  "polled k rq w = w\<lparr>sent := sent w @ replicate k rq\<rparr>"

definition waited :: "nat \<Rightarrow> world \<Rightarrow> world" where
  "waited k w = w\<lparr>events := events w @ replicate k (Sleep 5000)\<rparr>"

text \<open>A gateway that always answers the same, one that answers from a script and then
  always the same, the answer that carries only a status, and a world to start from.\<close>

definition gw_const :: "outcome \<Rightarrow> gateway" where
  "gw_const out = (\<lambda>history rq. out)"

definition gw_script :: "outcome list \<Rightarrow> outcome \<Rightarrow> gateway" where
  "gw_script outs rest =
     (\<lambda>history rq. if length history < length outs then outs ! length history else rest)"

definition status_response :: "string \<Rightarrow> outcome" where
  "status_response s = Responded (JObj [(''status'', JStr s)])"

definition w0 :: world where
  "w0 = \<lparr>sent = [], events = [], clock = 1700000000000\<rparr>"


definition signatures_verify :: "ed25519 \<Rightarrow> bool" where
  "signatures_verify ed \<longleftrightarrow>
     (\<forall>m sk. length sk = 32 \<longrightarrow>
        (\<exists>sig pk. ed_sign ed m sk = Inr sig \<and> ed_getPublicKey ed sk = Inr pk
           \<and> ed_verify ed sig m pk))"

text \<open>A stand-in for the library, to run the client on: the public key is the secret key
  with every byte incremented, a signature is the public key followed by the message.\<close>

definition ed_stub :: ed25519 where
  "ed_stub =
     \<lparr>ed_sign = (\<lambda>m sk. if length sk = 32 then Inr (map (\<lambda>b. b + 1) sk @ m)
                         else Inl (Error ''secretKey of length 32 expected'' None)),
      ed_getPublicKey = (\<lambda>sk. if length sk = 32 then Inr (map (\<lambda>b. b + 1) sk)
                              else Inl (Error ''secretKey of length 32 expected'' None)),
      ed_verify = (\<lambda>sig m pk. sig = pk @ m)\<rparr>"

definition sk0 :: "byte list" where
  "sk0 = replicate 32 7"

section \<open>The signed bytes\<close>

lemma of_char_b64_char:
  assumes "n < 64"
  shows "(of_char (b64_char n) :: nat) =
           (if n < 26 then 65 + n else if n < 52 then 71 + n else if n < 62 then n - 4
            else if n = 62 then 43 else 47)"
  using assms by (simp add: b64_char_def)

lemma b64_char_value: "n < 64 \<Longrightarrow> b64_value (b64_char n) = Some n"
proof -
  assume n: "n < 64"
  consider "n < 26" | "26 \<le> n" "n < 52" | "52 \<le> n" "n < 62" | "n = 62" | "n = 63"
    using n by linarith
  then show ?thesis
  proof cases
    case 1
    then show ?thesis by (simp add: b64_value_def b64_char_def)
  next
    case 2
    then show ?thesis by (simp add: b64_value_def b64_char_def)
  next
    case 3
    then have "48 \<le> n - 4" and "n - 4 \<le> 57" by simp_all
    with 3 show ?thesis by (simp add: b64_value_def b64_char_def Let_def)
  next
    case 4
    then show ?thesis by (simp add: b64_value_def b64_char_def)
  next
    case 5
    then show ?thesis by (simp add: b64_value_def b64_char_def)
  qed
qed

lemma b64_char_not_pad: "n < 64 \<Longrightarrow> b64_char n \<noteq> CHR ''=''"
proof
  assume "n < 64" and "b64_char n = CHR ''=''"
  then have "(of_char (b64_char n) :: nat) = 61" by simp
  with \<open>n < 64\<close> show False
    by (simp add: of_char_b64_char split: if_splits)
qed

lemma sextets_b64_char: "n < 64 \<Longrightarrow> sextets (b64_char n # cs) = n # sextets cs"
  by (simp add: b64_char_value b64_char_not_pad)

lemma div_mod_sextet:
  fixes x y k :: nat
  assumes "y < k"
  shows "(x * k + y) div k = x" and "(x * k + y) mod k = y"
  using assms by simp_all

lemma byte_of_sextets_1:
  assumes "n < 256"
  shows "of_nat (unat a div 4 * 4 + (unat a mod 4 * 16 + n div 16) div 16) = (a :: byte)"
proof -
  from assms have "n div 16 < 16" by simp
  then have "(unat a mod 4 * 16 + n div 16) div 16 = unat a mod 4"
    by (rule div_mod_sextet)
  then have "unat a div 4 * 4 + (unat a mod 4 * 16 + n div 16) div 16 = unat a"
    by simp
  then show ?thesis by simp
qed

lemma byte_of_sextets_2:
  assumes "n < 256"
  shows "of_nat ((m mod 4 * 16 + unat b div 16) mod 16 * 16 + (unat b mod 16 * 4 + n div 64) div 4)
           = (b :: byte)"
proof -
  have "unat b < 256"
    using unsigned_less [of b, where 'a = nat] by simp
  then have "unat b div 16 < 16" by simp
  then have 1: "(m mod 4 * 16 + unat b div 16) mod 16 = unat b div 16"
    by (rule div_mod_sextet)
  from assms have "n div 64 < 4" by simp
  then have 2: "(unat b mod 16 * 4 + n div 64) div 4 = unat b mod 16"
    by (rule div_mod_sextet)
  have "(m mod 4 * 16 + unat b div 16) mod 16 * 16 + (unat b mod 16 * 4 + n div 64) div 4 = unat b"
    by (simp only: 1 2 div_mult_mod_eq)
  then show ?thesis by simp
qed

lemma byte_of_sextets_3:
  "of_nat ((m mod 16 * 4 + unat c div 64) mod 4 * 64 + unat c mod 64) = (c :: byte)"
proof -
  have "unat c < 256"
    using unsigned_less [of c, where 'a = nat] by simp
  then have "unat c div 64 < 4" by simp
  then have 1: "(m mod 16 * 4 + unat c div 64) mod 4 = unat c div 64"
    by (rule div_mod_sextet)
  have "(m mod 16 * 4 + unat c div 64) mod 4 * 64 + unat c mod 64 = unat c"
    by (simp only: 1 div_mult_mod_eq)
  then show ?thesis by simp
qed

lemma unat_byte_less: "unat (a :: byte) < 256"
  using unsigned_less [of a, where 'a = nat] by simp

lemma sextet_bounds:
  fixes a b c :: byte
  shows "unat a div 4 < 64"
    and "unat a mod 4 * 16 + unat b div 16 < 64"
    and "unat b mod 16 * 4 + unat c div 64 < 64"
    and "unat c mod 64 < 64"
    and "unat a mod 4 * 16 < 64"
    and "unat b mod 16 * 4 < 64"
proof -
  note unat_byte_less [of a] unat_byte_less [of b] unat_byte_less [of c]
  then show "unat a div 4 < 64" by simp
  have "unat a mod 4 < 4" "unat b mod 16 < 16" by simp_all
  moreover have "unat b div 16 < 16" "unat c div 64 < 4"
    using unat_byte_less [of b] unat_byte_less [of c] by simp_all
  ultimately show "unat a mod 4 * 16 + unat b div 16 < 64"
    and "unat b mod 16 * 4 + unat c div 64 < 64"
    and "unat a mod 4 * 16 < 64"
    and "unat b mod 16 * 4 < 64"
    by linarith+
  show "unat c mod 64 < 64" by simp
qed

lemma sextets_pad [simp]: "sextets (CHR ''='' # cs) = []"
  by simp

lemma base64_roundtrip: "base64ToUnit8Array (toString_base64 bs) = bs"
  unfolding base64ToUnit8Array_def
proof (induction bs rule: toString_base64.induct)
  case 1
  show ?case by simp
next
  case (2 a)
  have "from_sextets [unat a div 4, unat a mod 4 * 16] = [a]"
    using byte_of_sextets_1 [of 0 a] by simp
  then show ?case
    by (simp add: sextets_b64_char sextet_bounds del: sextets.simps from_sextets.simps)
next
  case (3 a b)
  have "from_sextets [unat a div 4, unat a mod 4 * 16 + unat b div 16, unat b mod 16 * 4] = [a, b]"
    using byte_of_sextets_1 [of "unat b" a] byte_of_sextets_2 [of 0 "unat a" b] unat_byte_less [of b]
    by simp
  then show ?case
    by (simp add: sextets_b64_char sextet_bounds del: sextets.simps from_sextets.simps)
next
  case (4 a b c bs)
  have "from_sextets (unat a div 4 # (unat a mod 4 * 16 + unat b div 16)
            # (unat b mod 16 * 4 + unat c div 64) # unat c mod 64 # vs)
          = [a, b, c] @ from_sextets vs" for vs
    using byte_of_sextets_1 [of "unat b" a] byte_of_sextets_2 [of "unat c" "unat a" b]
      byte_of_sextets_3 [of "unat b" c] unat_byte_less [of b] unat_byte_less [of c]
    by simp
  with 4 show ?case
    by (simp add: sextets_b64_char sextet_bounds del: sextets.simps from_sextets.simps)
qed

lemma tx_object_truncate: "tx_object (Tx.truncate tx) = tx_object tx"
  by (simp add: tx_object_def Tx.truncate_def)

lemma sign_tx_truncate: "sign_tx ed sk (Tx.truncate tx) = sign_tx ed sk tx"
  by (simp add: sign_tx_def tx_object_truncate)

lemma blob_example:
  \<open>JSON_stringify (tx_object \<lparr>tx_from = ''A'', tx_to = ''B'', amount = ''0'', nonce = 5,
       ou = ''1'', timestamp = 1700000000\<rparr>)
   = ''{"from":"A","to_":"B","amount":"0","nonce":5,"ou":"1","timestamp":1700000000}''\<close>
  by (simp add: tx_object_def quote_def quote_char_def number_to_string_def nat_to_string.simps
        digit_char_def char_of_eq_iff)

lemma sign_tx_ed_stub:
  "sign_tx ed_stub sk0 tx =
     Inr (toString_base64 (map (\<lambda>b. b + 1) sk0 @ Buffer_from (JSON_stringify (tx_object tx))))"
  by (simp add: sign_tx_def ed_stub_def sk0_def)

lemma getPublicKey_ed_stub: "ed_getPublicKey ed_stub sk0 = Inr (map (\<lambda>b. b + 1) sk0)"
  by (simp add: ed_stub_def sk0_def)


text \<open>
  Claim C7. Let the library be one whose signatures verify, and the secret key have 32
  bytes. Then \<open>sign_tx\<close> returns a signature, the same for every transaction object with
  these six field values, and decoding it from base64 gives bytes that verify against the
  serialization of the transaction under the public key derived from the same secret key.
\<close>

theorem sign_tx_verifies:
  assumes "signatures_verify ed" and "length sk = 32"
  shows "\<exists>signature pk.
           sign_tx ed sk tx = Inr signature
         \<and> ed_getPublicKey ed sk = Inr pk
         \<and> ed_verify ed (base64ToUnit8Array signature)
              (Buffer_from (JSON_stringify (tx_object tx))) pk
         \<and> (\<forall>tx' :: 'b Tx_scheme. Tx.truncate tx' = Tx.truncate tx
               \<longrightarrow> sign_tx ed sk tx' = Inr signature)"
proof -
  let ?m = "Buffer_from (JSON_stringify (tx_object tx))"
  from assms obtain sig pk where
    lib: "ed_sign ed ?m sk = Inr sig" "ed_getPublicKey ed sk = Inr pk" "ed_verify ed sig ?m pk"
    unfolding signatures_verify_def by blast
  have signed: "sign_tx ed sk tx = Inr (toString_base64 sig)"
    using lib(1) by (simp add: sign_tx_def)
  have "sign_tx ed sk tx' = Inr (toString_base64 sig)"
    if "Tx.truncate tx' = Tx.truncate tx" for tx' :: "'b Tx_scheme"
  proof -
    have "sign_tx ed sk tx' = sign_tx ed sk (Tx.truncate tx')"
      by (simp only: sign_tx_truncate)
    also have "\<dots> = sign_tx ed sk tx"
      by (simp only: that sign_tx_truncate)
    finally show ?thesis
      by (simp only: signed)
  qed
  with signed lib(2,3) show ?thesis
    by (simp add: base64_roundtrip)
qed

theorem sign_tx_verifies_witness:
  "\<exists>signature.
     sign_tx ed_stub sk0 (TxData ''A'' ''B'' 4 w0) = Inr signature
   \<and> ed_verify ed_stub (base64ToUnit8Array signature)
        (Buffer_from (JSON_stringify (tx_object (TxData ''A'' ''B'' 4 w0)))) (map (\<lambda>b. b + 1) sk0)"
proof -
  have "signatures_verify ed_stub"
    by (simp add: signatures_verify_def ed_stub_def)
  moreover have "length sk0 = 32"
    by (simp add: sk0_def)
  ultimately show ?thesis
    using sign_tx_verifies [of ed_stub sk0 "TxData ''A'' ''B'' 4 w0"]
    by (auto simp add: getPublicKey_ed_stub)
qed


section \<open>Submitting a contract call\<close>

lemma sent_console_log [simp]: "sent (console_log s w) = sent w"
  by (simp add: console_log_def)

lemma call_contract_unsigned:
  assumes "sign_tx ed sk (TxData address contract n w) = Inl e"
  shows "call_contract ed gw api_url sk address n contract meth params w =
           (Inl e, console_log (''Using nonce: '' @ number_to_string (n + 1)) w)"
  using assms by (simp add: call_contract_def Let_def) (simp add: TxData_def)

lemma call_contract_no_public_key:
  assumes "sign_tx ed sk (TxData address contract n w) = Inr signature"
    and "ed_getPublicKey ed sk = Inl e"
  shows "call_contract ed gw api_url sk address n contract meth params w =
           (Inl e, console_log (''Using nonce: '' @ number_to_string (n + 1)) w)"
  using assms by (simp add: call_contract_def Let_def) (simp add: TxData_def)

lemma call_contract_submits:
  assumes "sign_tx ed sk (TxData address contract n w) = Inr signature"
    and "ed_getPublicKey ed sk = Inr pk"
  shows "call_contract ed gw api_url sk address n contract meth params w =
           (case gw (sent w) (call_request api_url contract meth params address (n + 1)
                      (of_int (clock w) / 1000) signature (toString_base64 pk)) of
              Responded body \<Rightarrow>
                (case get_prop body ''tx_hash'' of Inl e \<Rightarrow> Inl e | Inr h \<Rightarrow> Inr h)
            | Refused body \<Rightarrow> Inl (Error ''api error: '' (error_cause body))
            | Unreachable err \<Rightarrow> Inl err,
            (console_log (''Using nonce: '' @ number_to_string (n + 1)) w)
              \<lparr>sent := sent w @ [call_request api_url contract meth params address (n + 1)
                      (of_int (clock w) / 1000) signature (toString_base64 pk)]\<rparr>)"
  using assms
  by (simp add: call_contract_def Let_def api_call_def)
     (simp add: TxData_def call_request_def split: outcome.splits sum.splits)



text \<open>
  Claim C6 fails on the code. The gateway refuses a submission with the body
  \<open>stale nonce\<close>: the error that \<open>call_contract\<close> throws has the message \<open>api error: \<close> and
  nothing of the body, which \<open>api_call\<close> passes to \<open>new Error\<close> as its second argument. The
  \<open>api_call\<close> of \<open>src/main.ts\<close>, on the same refusal, puts the body into the message. The
  submission is made once.
\<close>

theorem call_contract_rejection_message:
  "fst (call_contract ed_stub (gw_const (Refused (JStr ''stale nonce'')))
          ''http://rpc'' sk0 ''A'' 5 ''C'' ''inc'' [] w0)
     = Inl (Error ''api error: '' None)
   \<and> length (sent (snd (call_contract ed_stub (gw_const (Refused (JStr ''stale nonce'')))
          ''http://rpc'' sk0 ''A'' 5 ''C'' ''inc'' [] w0))) = 1
   \<and> fst (api_call_main (gw_const (Refused (JStr ''stale nonce'')))
          POST ''http://rpc/call-contract'' None w0)
     = Inl (Error ''api error: stale nonce'' None)"
  using call_contract_submits [where ed = ed_stub and sk = sk0 and address = "''A''"
          and contract = "''C''" and n = 5 and w = w0
          and gw = "gw_const (Refused (JStr ''stale nonce''))" and api_url = "''http://rpc''"
          and meth = "''inc''" and params = "[]",
          OF sign_tx_ed_stub getPublicKey_ed_stub]
  by (simp add: gw_const_def api_call_main_def w0_def)



text \<open>
  Claim C10. Every request that a call to \<open>call_contract\<close> issues carries, next to the
  signature of the transaction object, the nonce and the timestamp of that same object.
\<close>

theorem call_contract_payload:
  assumes "call_contract ed gw api_url sk address n contract meth params w = (r, w')"
    and "rq \<in> set (drop (length (sent w)) (sent w'))"
  shows "\<exists>body signature.
           data rq = Some (JObj body)
         \<and> sign_tx ed sk (TxData address contract n w) = Inr signature
         \<and> map_of body ''signature'' = Some (JStr signature)
         \<and> map_of body ''nonce'' = Some (JNum (nonce (TxData address contract n w)))
         \<and> map_of body ''timestamp'' = Some (JNum (timestamp (TxData address contract n w)))"
proof (cases "sign_tx ed sk (TxData address contract n w)")
  case (Inl e)
  with assms call_contract_unsigned [OF Inl, of gw api_url meth params] show ?thesis by auto
next
  case (Inr signature)
  show ?thesis
  proof (cases "ed_getPublicKey ed sk")
    case (Inl e)
    with assms call_contract_no_public_key [OF Inr Inl, of gw api_url meth params] show ?thesis
      by auto
  next
    case pk: (Inr pk)
    from assms call_contract_submits [OF Inr pk, of gw api_url meth params]
    have "rq = call_request api_url contract meth params address (n + 1)
                 (of_int (clock w) / 1000) signature (toString_base64 pk)"
      by auto
    with Inr show ?thesis
      by (simp add: call_request_def TxData_def)
  qed
qed

theorem call_contract_payload_witness:
  "\<exists>rq body signature.
     sent (snd (call_contract ed_stub (gw_const (Responded (JObj [(''tx_hash'', JStr ''abc123'')])))
                  ''http://rpc'' sk0 ''A'' 5 ''C'' ''inc'' [''1''] w0)) = [rq]
   \<and> data rq = Some (JObj body)
   \<and> sign_tx ed_stub sk0 (TxData ''A'' ''C'' 5 w0) = Inr signature
   \<and> map_of body ''signature'' = Some (JStr signature)
   \<and> map_of body ''nonce'' = Some (JNum 6)
   \<and> map_of body ''timestamp'' = Some (JNum 1700000000)"
proof -
  let ?gw = "gw_const (Responded (JObj [(''tx_hash'', JStr ''abc123'')]))"
  let ?run = "call_contract ed_stub ?gw ''http://rpc'' sk0 ''A'' 5 ''C'' ''inc'' [''1''] w0"
  obtain signature where s: "sign_tx ed_stub sk0 (TxData ''A'' ''C'' 5 w0) = Inr signature"
    by (simp add: sign_tx_ed_stub)
  let ?rq = "call_request ''http://rpc'' ''C'' ''inc'' [''1''] ''A'' 6 1700000000 signature
               (toString_base64 (map (\<lambda>b. b + 1) sk0))"
  have sent: "sent (snd ?run) = [?rq]"
    using call_contract_submits [OF s getPublicKey_ed_stub, of ?gw "''http://rpc''" "''inc''" "[''1'']"]
    by (simp add: w0_def)
  then have "?rq \<in> set (drop (length (sent w0)) (sent (snd ?run)))"
    by (simp add: w0_def)
  from call_contract_payload [OF surjective_pairing this] sent show ?thesis
    by (auto simp add: TxData_def w0_def)
qed


section \<open>Reading a contract\<close>









section \<open>Waiting for a confirmation\<close>

lemma reports_non_confirming:
  "reports gw history rq s \<Longrightarrow> s \<noteq> ''confirmed'' \<Longrightarrow> non_confirming gw history rq"
  by (auto simp add: reports_def non_confirming_def split: outcome.splits)

lemma reports_confirmed_not_non_confirming:
  "reports gw history rq ''confirmed'' \<Longrightarrow> \<not> non_confirming gw history rq"
  by (auto simp add: reports_def non_confirming_def split: outcome.splits)

lemma wait_loop_confirmed:
  assumes "reports gw (sent w) (tx_request api_url h) ''confirmed''"
  shows "wait_loop gw api_url h mx e w =
           Some (Inr h, stopLoading True (Some ''Transaction confirmed!'')
                          (polled 1 (tx_request api_url h) w))"
  using assms
  by (subst wait_loop.simps)
     (auto simp add: reports_def api_call_def Let_def tx_request_def polled_def
           split: outcome.splits)

lemma wait_loop_timeout:
  assumes "non_confirming gw (sent w) (tx_request api_url h)"
    and "mx \<noteq> 0" and "mx \<le> of_nat (Suc e)"
  shows "wait_loop gw api_url h mx e w =
           Some (Inr h, stopLoading False
                          (Some ''Transaction not confirmed within the maximum wait time.'')
                          (polled 1 (tx_request api_url h) w))"
  using assms
  by (subst wait_loop.simps)
     (auto simp add: non_confirming_def api_call_def Let_def tx_request_def polled_def
           split: outcome.splits sum.splits)

lemma wait_loop_again:
  assumes "non_confirming gw (sent w) (tx_request api_url h)"
    and "mx = 0 \<or> of_nat (Suc e) < mx"
  shows "wait_loop gw api_url h mx e w =
           wait_loop gw api_url h mx (Suc e) (sleep 5000 (polled 1 (tx_request api_url h) w))"
  using assms
  by (subst wait_loop.simps)
     (auto simp add: non_confirming_def api_call_def Let_def tx_request_def polled_def
           split: outcome.splits sum.splits)

lemma wait_loop_Unreachable:
  assumes "gw (sent w) (tx_request api_url h) = Unreachable err"
  shows "wait_loop gw api_url h mx e w = Some (Inl err, polled 1 (tx_request api_url h) w)"
  using assms
  by (subst wait_loop.simps)
     (auto simp add: api_call_def Let_def tx_request_def polled_def)

lemma wait_loop_Refused:
  assumes "gw (sent w) (tx_request api_url h) = Refused body"
  shows "wait_loop gw api_url h mx e w =
           Some (Inl (Error ''api error: '' (error_cause body)), polled 1 (tx_request api_url h) w)"
  using assms
  by (subst wait_loop.simps)
     (auto simp add: api_call_def Let_def tx_request_def polled_def)

lemma polled_waited_Suc:
  "waited k (polled k rq (waited 1 (polled 1 rq w))) = waited (Suc k) (polled (Suc k) rq w)"
  by (simp add: waited_def polled_def replicate_app_Cons_same)

lemma sent_waited_polled [simp]:
  "sent (waited j (polled k rq w)) = sent w @ replicate k rq"
  by (simp add: waited_def polled_def)

lemma sent_createLoading [simp]: "sent (createLoading msg w) = sent w"
  by (simp add: createLoading_def)

lemma polled_last:
  "1 \<le> n \<Longrightarrow>
   polled (Suc 0) rq (waited j (polled (n - Suc 0) rq w)) = waited j (polled n rq w)"
  by (cases n) (simp_all add: waited_def polled_def replicate_append_same)

lemma polled_Suc:
  "polled (Suc 0) rq (waited j (polled k rq w)) = waited j (polled (Suc k) rq w)"
  by (simp add: waited_def polled_def replicate_append_same)

lemma wait_loop_iterate:
  assumes "\<forall>i<k. non_confirming gw (sent w @ replicate i (tx_request api_url h)) (tx_request api_url h)"
    and "mx = 0 \<or> of_nat (e + k) < mx"
  shows "wait_loop gw api_url h mx e w =
           wait_loop gw api_url h mx (e + k) (waited k (polled k (tx_request api_url h) w))"
  using assms
proof (induction k arbitrary: e w)
  case 0
  show ?case by (simp add: waited_def polled_def)
next
  case (Suc k)
  let ?rq = "tx_request api_url h"
  let ?w1 = "waited 1 (polled 1 ?rq w)"
  from Suc.prems(1) have first: "non_confirming gw (sent w) ?rq"
    by (metis append_Nil2 replicate_0 zero_less_Suc)
  from Suc.prems(2) have budget: "mx = 0 \<or> of_nat (Suc e) < mx"
    by auto
  have rest: "\<forall>i<k. non_confirming gw (sent ?w1 @ replicate i ?rq) ?rq"
  proof (intro allI impI)
    fix i assume "i < k"
    then have "Suc i < Suc k" by simp
    then have "non_confirming gw (sent w @ replicate (Suc i) ?rq) ?rq"
      using Suc.prems(1) by blast
    then show "non_confirming gw (sent ?w1 @ replicate i ?rq) ?rq"
      by (simp add: replicate_app_Cons_same)
  qed
  have "wait_loop gw api_url h mx e w = wait_loop gw api_url h mx (Suc e) ?w1"
    using wait_loop_again [OF first budget] by (simp add: sleep_def waited_def)
  also have "\<dots> = wait_loop gw api_url h mx (Suc e + k) (waited k (polled k ?rq ?w1))"
  proof -
    from Suc.prems(2) have "mx = 0 \<or> of_nat (Suc e + k) < mx" by simp
    then show ?thesis by (rule Suc.IH [OF rest])
  qed
  finally show ?case
    by (simp only: polled_waited_Suc add_Suc add_Suc_right)
qed

lemma wait_loop_returns:
  assumes "wait_loop gw api_url h mx e w = Some y"
  shows "mx = 0 \<longrightarrow>
         (\<exists>n. (\<forall>i<n. non_confirming gw (sent w @ replicate i (tx_request api_url h)) (tx_request api_url h))
            \<and> sent (snd y) = sent w @ replicate (Suc n) (tx_request api_url h)
            \<and> (if reports gw (sent w @ replicate n (tx_request api_url h)) (tx_request api_url h) ''confirmed''
               then fst y = Inr h
               else isl (fst y) \<and> \<not> non_confirming gw (sent w @ replicate n (tx_request api_url h)) (tx_request api_url h)))"
proof (rule wait_loop.raw_induct [where P = "\<lambda>gw api_url h mx e w y. mx = 0 \<longrightarrow>
         (\<exists>n. (\<forall>i<n. non_confirming gw (sent w @ replicate i (tx_request api_url h)) (tx_request api_url h))
            \<and> sent (snd y) = sent w @ replicate (Suc n) (tx_request api_url h)
            \<and> (if reports gw (sent w @ replicate n (tx_request api_url h)) (tx_request api_url h) ''confirmed''
               then fst y = Inr h
               else isl (fst y) \<and> \<not> non_confirming gw (sent w @ replicate n (tx_request api_url h)) (tx_request api_url h)))",
       OF _ assms], goal_cases)
  case (1 loop gw api_url h mx e w y)
  let ?rq = "tx_request api_url h"
  show ?case
  proof (intro impI)
    assume mx: "mx = 0"
    consider (conf) "reports gw (sent w) ?rq ''confirmed''"
      | (again) "non_confirming gw (sent w) ?rq"
      | (failed) "\<not> non_confirming gw (sent w) ?rq" "\<not> reports gw (sent w) ?rq ''confirmed''"
      by blast
    then show "\<exists>n. (\<forall>i<n. non_confirming gw (sent w @ replicate i ?rq) ?rq)
            \<and> sent (snd y) = sent w @ replicate (Suc n) ?rq
            \<and> (if reports gw (sent w @ replicate n ?rq) ?rq ''confirmed''
               then fst y = Inr h
               else isl (fst y) \<and> \<not> non_confirming gw (sent w @ replicate n ?rq) ?rq)"
    proof cases
      case conf
      with 1(2) have "y = (Inr h, stopLoading True (Some ''Transaction confirmed!'') (polled 1 ?rq w))"
        by (auto simp add: reports_def api_call_def Let_def tx_request_def polled_def
              split: outcome.splits)
      with conf show ?thesis
        by (intro exI [of _ 0]) (simp add: stopLoading_def polled_def)
    next
      case failed
      with 1(2) have "isl (fst y) \<and> snd y = polled 1 ?rq w"
        by (auto simp add: non_confirming_def reports_def api_call_def Let_def tx_request_def
              polled_def split: outcome.splits sum.splits)
      with failed show ?thesis
        by (intro exI [of _ 0]) (simp add: polled_def)
    next
      case again
      let ?w1 = "sleep 5000 (polled 1 ?rq w)"
      from again 1(2) mx have "loop gw api_url h mx (Suc e) ?w1 = Some y"
        by (auto simp add: non_confirming_def api_call_def Let_def tx_request_def polled_def
              split: outcome.splits sum.splits)
      from 1(1) [OF this] mx obtain n where
        n: "\<forall>i<n. non_confirming gw (sent ?w1 @ replicate i ?rq) ?rq"
           "sent (snd y) = sent ?w1 @ replicate (Suc n) ?rq"
           "if reports gw (sent ?w1 @ replicate n ?rq) ?rq ''confirmed''
            then fst y = Inr h
            else isl (fst y) \<and> \<not> non_confirming gw (sent ?w1 @ replicate n ?rq) ?rq"
        by blast
      have shift: "sent ?w1 @ replicate i ?rq = sent w @ replicate (Suc i) ?rq" for i
        by (simp add: sleep_def polled_def replicate_app_Cons_same)
      have "\<forall>i<Suc n. non_confirming gw (sent w @ replicate i ?rq) ?rq"
      proof (intro allI impI)
        fix i assume "i < Suc n"
        show "non_confirming gw (sent w @ replicate i ?rq) ?rq"
        proof (cases i)
          case 0
          with again show ?thesis by simp
        next
          case (Suc j)
          with \<open>i < Suc n\<close> have "j < n" by simp
          with n(1) have "non_confirming gw (sent ?w1 @ replicate j ?rq) ?rq" by blast
          with Suc show ?thesis by (simp only: shift)
        qed
      qed
      moreover from n(2) have "sent (snd y) = sent w @ replicate (Suc (Suc n)) ?rq"
        by (simp only: shift)
      moreover from n(3) have "if reports gw (sent w @ replicate (Suc n) ?rq) ?rq ''confirmed''
            then fst y = Inr h
            else isl (fst y) \<and> \<not> non_confirming gw (sent w @ replicate (Suc n) ?rq) ?rq"
        by (simp only: shift)
      ultimately show ?thesis by blast
    qed
  qed
qed

lemma wait_for_tx_returns:
  assumes "wait_for_tx gw api_url h (Some 0) w = Some y"
  shows "\<exists>n. (\<forall>i<n. non_confirming gw (sent w @ replicate i (tx_request api_url h)) (tx_request api_url h))
            \<and> sent (snd y) = sent w @ replicate (Suc n) (tx_request api_url h)
            \<and> (if reports gw (sent w @ replicate n (tx_request api_url h)) (tx_request api_url h) ''confirmed''
               then fst y = Inr h
               else isl (fst y) \<and> \<not> non_confirming gw (sent w @ replicate n (tx_request api_url h)) (tx_request api_url h))"
proof -
  from assms have "wait_loop gw api_url h 0 0
      (createLoading ''Waiting for transaction confirmation...'' w) = Some y"
    by (simp add: wait_for_tx_def)
  from wait_loop_returns [OF this] show ?thesis
    by (simp only: sent_createLoading cong: if_cong)
qed

text \<open>
  Claim C2, as amended. Let the gateway report \<open>pending\<close> on the first \<open>N - 1\<close> status
  queries and \<open>confirmed\<close> on the \<open>N\<close>-th, and let the budget \<open>m\<close> be a whole number, at
  least 1. With \<open>m \<ge> N\<close> the call issues exactly \<open>N\<close> queries and the spinner reports
  success; with \<open>m < N\<close> it issues exactly \<open>m\<close> queries and the spinner reports the failure.
  In both cases the value returned is the transaction hash: the final status is shown, not
  returned.
\<close>

theorem wait_for_tx_polls:
  assumes "1 \<le> N"
    and "\<forall>i<N - 1. reports gw (sent w @ replicate i (tx_request api_url h)) (tx_request api_url h) ''pending''"
    and "reports gw (sent w @ replicate (N - 1) (tx_request api_url h)) (tx_request api_url h) ''confirmed''"
    and "1 \<le> m"
  shows "wait_for_tx gw api_url h (Some (of_nat m)) w =
           (if N \<le> m
            then Some (Inr h,
                   stopLoading True (Some ''Transaction confirmed!'')
                     (waited (N - 1) (polled N (tx_request api_url h)
                        (createLoading ''Waiting for transaction confirmation...'' w))))
            else Some (Inr h,
                   stopLoading False (Some ''Transaction not confirmed within the maximum wait time.'')
                     (waited (m - 1) (polled m (tx_request api_url h)
                        (createLoading ''Waiting for transaction confirmation...'' w)))))"
proof -
  let ?rq = "tx_request api_url h"
  let ?w = "createLoading ''Waiting for transaction confirmation...'' w"
  have pending: "\<forall>i<N - 1. non_confirming gw (sent ?w @ replicate i ?rq) ?rq"
    using assms(2) by (auto intro: reports_non_confirming)
  show ?thesis
  proof (cases "N \<le> m")
    case True
    with assms(1) have budget: "rat_of_nat m = 0 \<or> of_nat (0 + (N - 1)) < rat_of_nat m"
      by simp
    have "wait_loop gw api_url h (of_nat m) 0 ?w =
            wait_loop gw api_url h (of_nat m) (0 + (N - 1)) (waited (N - 1) (polled (N - 1) ?rq ?w))"
      using pending budget by (rule wait_loop_iterate)
    also have "\<dots> = Some (Inr h, stopLoading True (Some ''Transaction confirmed!'')
                          (polled 1 ?rq (waited (N - 1) (polled (N - 1) ?rq ?w))))"
      using assms(3) by (intro wait_loop_confirmed) simp
    finally show ?thesis
      using True by (simp add: wait_for_tx_def polled_last [OF assms(1)])
  next
    case False
    with assms(4) have budget: "rat_of_nat m = 0 \<or> of_nat (0 + (m - 1)) < rat_of_nat m"
      by simp
    from False have "\<forall>i<m - 1. non_confirming gw (sent ?w @ replicate i ?rq) ?rq"
      using pending by simp
    then have "wait_loop gw api_url h (of_nat m) 0 ?w =
            wait_loop gw api_url h (of_nat m) (0 + (m - 1)) (waited (m - 1) (polled (m - 1) ?rq ?w))"
      using budget by (rule wait_loop_iterate)
    also have "\<dots> = Some (Inr h, stopLoading False
                          (Some ''Transaction not confirmed within the maximum wait time.'')
                          (polled 1 ?rq (waited (m - 1) (polled (m - 1) ?rq ?w))))"
    proof (rule wait_loop_timeout)
      from False assms(4) have "m - 1 < N - 1" by simp
      with pending show "non_confirming gw (sent (waited (m - 1) (polled (m - 1) ?rq ?w))) ?rq"
        by simp
      from assms(4) show "rat_of_nat m \<noteq> 0" by simp
      from assms(4) show "rat_of_nat m \<le> of_nat (Suc (0 + (m - 1)))" by simp
    qed
    finally show ?thesis
      using False by (simp add: wait_for_tx_def polled_last [OF assms(4)])
  qed
qed

theorem wait_for_tx_polls_witness:
  "wait_for_tx (gw_script [status_response ''pending''] (status_response ''confirmed''))
     ''http://rpc'' ''abc123'' (Some 3) w0
   = Some (Inr ''abc123'',
       stopLoading True (Some ''Transaction confirmed!'')
         (waited 1 (polled 2 (tx_request ''http://rpc'' ''abc123'')
            (createLoading ''Waiting for transaction confirmation...'' w0))))
   \<and> wait_for_tx (gw_script [status_response ''pending''] (status_response ''confirmed''))
     ''http://rpc'' ''abc123'' (Some 1) w0
   = Some (Inr ''abc123'',
       stopLoading False (Some ''Transaction not confirmed within the maximum wait time.'')
         (waited 0 (polled 1 (tx_request ''http://rpc'' ''abc123'')
            (createLoading ''Waiting for transaction confirmation...'' w0))))"
  using wait_for_tx_polls [of 2 "gw_script [status_response ''pending''] (status_response ''confirmed'')"
          w0 "''http://rpc''" "''abc123''" 3]
        wait_for_tx_polls [of 2 "gw_script [status_response ''pending''] (status_response ''confirmed'')"
          w0 "''http://rpc''" "''abc123''" 1]
  by (simp add: gw_script_def status_response_def reports_def w0_def)

text \<open>
  Claim C2 as stated fails: the gateway confirms on the second query, and the call returns
  the same value, the hash, with a budget of 1 (timed out) and with a budget of 2
  (confirmed). No status is returned.
\<close>

theorem wait_for_tx_return_value_counterexample:
  "map_option fst
     (wait_for_tx (gw_script [status_response ''pending''] (status_response ''confirmed''))
        ''http://rpc'' ''abc123'' (Some 1) w0) = Some (Inr ''abc123'')
   \<and> map_option fst
     (wait_for_tx (gw_script [status_response ''pending''] (status_response ''confirmed''))
        ''http://rpc'' ''abc123'' (Some 2) w0) = Some (Inr ''abc123'')
   \<and> map_option fst
     (wait_for_tx (gw_script [status_response ''pending''] (status_response ''confirmed''))
        ''http://rpc'' ''abc123'' (Some 1) w0) \<noteq> Some (Inr ''timedOut'')
   \<and> map_option fst
     (wait_for_tx (gw_script [status_response ''pending''] (status_response ''confirmed''))
        ''http://rpc'' ''abc123'' (Some 2) w0) \<noteq> Some (Inr ''confirmed'')"
proof -
  let ?gw = "gw_script [status_response ''pending''] (status_response ''confirmed'')"
  let ?rq = "tx_request ''http://rpc'' ''abc123''"
  let ?w = "createLoading ''Waiting for transaction confirmation...'' w0"
  have first: "non_confirming ?gw (sent ?w) ?rq"
    by (simp add: non_confirming_def gw_script_def status_response_def w0_def)
  have second: "reports ?gw (sent (sleep 5000 (polled 1 ?rq ?w))) ?rq ''confirmed''"
    by (simp add: reports_def gw_script_def status_response_def w0_def sleep_def polled_def)
  have "wait_loop ?gw ''http://rpc'' ''abc123'' 1 0 ?w
          = Some (Inr ''abc123'', stopLoading False
                (Some ''Transaction not confirmed within the maximum wait time.'') (polled 1 ?rq ?w))"
    using first by (rule wait_loop_timeout) simp_all
  moreover have "wait_loop ?gw ''http://rpc'' ''abc123'' 2 0 ?w
          = wait_loop ?gw ''http://rpc'' ''abc123'' 2 (Suc 0) (sleep 5000 (polled 1 ?rq ?w))"
    using first by (rule wait_loop_again) simp
  moreover have "wait_loop ?gw ''http://rpc'' ''abc123'' 2 (Suc 0) (sleep 5000 (polled 1 ?rq ?w))
          = Some (Inr ''abc123'', stopLoading True (Some ''Transaction confirmed!'')
                (polled 1 ?rq (sleep 5000 (polled 1 ?rq ?w))))"
    using second by (rule wait_loop_confirmed)
  ultimately show ?thesis
    by (simp add: wait_for_tx_def)
qed

text \<open>
  Claim C5, as amended. A status query that gets no response ends the wait: after \<open>k\<close>
  non-confirming queries within the budget, if the next query fails with a transport error,
  \<open>wait_for_tx\<close> throws that error after exactly \<open>k + 1\<close> queries, whatever budget is left,
  and the spinner is not stopped.
\<close>

theorem wait_for_tx_failed_poll:
  assumes "\<forall>i<k. non_confirming gw (sent w @ replicate i (tx_request api_url h)) (tx_request api_url h)"
    and "mx = 0 \<or> of_nat k < mx"
    and "gw (sent w @ replicate k (tx_request api_url h)) (tx_request api_url h) = Unreachable err"
  shows "wait_for_tx gw api_url h (Some mx) w =
           Some (Inl err,
             waited k (polled (Suc k) (tx_request api_url h)
               (createLoading ''Waiting for transaction confirmation...'' w)))"
proof -
  let ?rq = "tx_request api_url h"
  let ?w = "createLoading ''Waiting for transaction confirmation...'' w"
  have "wait_loop gw api_url h mx 0 ?w =
          wait_loop gw api_url h mx (0 + k) (waited k (polled k ?rq ?w))"
    using assms(1,2) by (intro wait_loop_iterate) simp_all
  also have "\<dots> = Some (Inl err, polled 1 ?rq (waited k (polled k ?rq ?w)))"
    using assms(3) by (intro wait_loop_Unreachable) simp
  finally show ?thesis
    by (simp add: wait_for_tx_def polled_Suc)
qed

theorem wait_for_tx_failed_poll_witness:
  "wait_for_tx (gw_script [status_response ''pending'', status_response ''pending'']
                  (Unreachable (AxiosError ''Network Error'')))
     ''http://rpc'' ''abc123'' (Some 90) w0
   = Some (Inl (AxiosError ''Network Error''),
       waited 2 (polled 3 (tx_request ''http://rpc'' ''abc123'')
         (createLoading ''Waiting for transaction confirmation...'' w0)))"
  using wait_for_tx_failed_poll [of 2
          "gw_script [status_response ''pending'', status_response ''pending'']
             (Unreachable (AxiosError ''Network Error''))"
          w0 "''http://rpc''" "''abc123''" 90 "AxiosError ''Network Error''"]
  by (simp add: gw_script_def status_response_def non_confirming_def w0_def less_Suc_eq
        numeral_2_eq_2 numeral_3_eq_3)

text \<open>
  Claim C5 as stated fails: with a gateway that cannot be reached and a budget of 3, the
  call throws the transport error after one query; it does not time out.
\<close>

theorem wait_for_tx_gateway_down_counterexample:
  "wait_for_tx (gw_const (Unreachable (AxiosError ''Network Error'')))
     ''http://rpc'' ''abc123'' (Some 3) w0
   = Some (Inl (AxiosError ''Network Error''),
       \<lparr>sent = [tx_request ''http://rpc'' ''abc123''],
        events = [SpinnerStart ''Waiting for transaction confirmation...''],
        clock = 1700000000000\<rparr>)"
proof -
  let ?w = "createLoading ''Waiting for transaction confirmation...'' w0"
  have "wait_loop (gw_const (Unreachable (AxiosError ''Network Error'')))
          ''http://rpc'' ''abc123'' 3 0 ?w
        = Some (Inl (AxiosError ''Network Error''), polled 1 (tx_request ''http://rpc'' ''abc123'') ?w)"
    by (rule wait_loop_Unreachable) (simp add: gw_const_def)
  then show ?thesis
    by (simp add: wait_for_tx_def polled_def createLoading_def w0_def)
qed

text \<open>
  Claim C9, as amended. With \<open>max_wait_time = 0\<close> the budget check never fires. However many
  non-confirming answers come first, the call goes on to the query that is confirmed and
  returns there; if every answer is non-confirming, the call never returns; and if it ends,
  then either the last query was confirmed and the hash is returned, or the last query
  failed and its error is thrown.
\<close>

theorem wait_for_tx_no_budget:
  "(\<forall>n. (\<forall>i<n. non_confirming gw (sent w @ replicate i (tx_request api_url h)) (tx_request api_url h))
         \<and> reports gw (sent w @ replicate n (tx_request api_url h)) (tx_request api_url h) ''confirmed''
       \<longrightarrow> wait_for_tx gw api_url h (Some 0) w =
             Some (Inr h,
               stopLoading True (Some ''Transaction confirmed!'')
                 (waited n (polled (Suc n) (tx_request api_url h)
                    (createLoading ''Waiting for transaction confirmation...'' w)))))
   \<and> ((\<forall>i. non_confirming gw (sent w @ replicate i (tx_request api_url h)) (tx_request api_url h))
       \<longrightarrow> wait_for_tx gw api_url h (Some 0) w = None)
   \<and> (\<forall>r w'. wait_for_tx gw api_url h (Some 0) w = Some (r, w')
       \<longrightarrow> (\<exists>n. (\<forall>i<n. non_confirming gw (sent w @ replicate i (tx_request api_url h)) (tx_request api_url h))
              \<and> sent w' = sent w @ replicate (Suc n) (tx_request api_url h)
              \<and> (if reports gw (sent w @ replicate n (tx_request api_url h)) (tx_request api_url h) ''confirmed''
                 then r = Inr h
                 else isl r \<and> \<not> non_confirming gw (sent w @ replicate n (tx_request api_url h)) (tx_request api_url h))))"
proof (intro conjI allI impI)
  let ?rq = "tx_request api_url h"
  let ?w = "createLoading ''Waiting for transaction confirmation...'' w"
  {
    fix n
    assume a: "(\<forall>i<n. non_confirming gw (sent w @ replicate i ?rq) ?rq)
                \<and> reports gw (sent w @ replicate n ?rq) ?rq ''confirmed''"
    have "wait_loop gw api_url h 0 0 ?w = wait_loop gw api_url h 0 (0 + n) (waited n (polled n ?rq ?w))"
      using a by (intro wait_loop_iterate) simp_all
    also have "\<dots> = Some (Inr h, stopLoading True (Some ''Transaction confirmed!'')
                          (polled 1 ?rq (waited n (polled n ?rq ?w))))"
      using a by (intro wait_loop_confirmed) simp
    finally show "wait_for_tx gw api_url h (Some 0) w =
             Some (Inr h, stopLoading True (Some ''Transaction confirmed!'')
                 (waited n (polled (Suc n) ?rq ?w)))"
      by (simp add: wait_for_tx_def polled_Suc)
  }
  {
    fix r w'
    assume "wait_for_tx gw api_url h (Some 0) w = Some (r, w')"
    from wait_for_tx_returns [OF this]
    show "\<exists>n. (\<forall>i<n. non_confirming gw (sent w @ replicate i ?rq) ?rq)
              \<and> sent w' = sent w @ replicate (Suc n) ?rq
              \<and> (if reports gw (sent w @ replicate n ?rq) ?rq ''confirmed''
                 then r = Inr h
                 else isl r \<and> \<not> non_confirming gw (sent w @ replicate n ?rq) ?rq)"
      by (simp only: fst_conv snd_conv)
  }
  {
    assume forever: "\<forall>i. non_confirming gw (sent w @ replicate i ?rq) ?rq"
    show "wait_for_tx gw api_url h (Some 0) w = None"
    proof (rule ccontr)
      assume "wait_for_tx gw api_url h (Some 0) w \<noteq> None"
      then obtain y where "wait_for_tx gw api_url h (Some 0) w = Some y"
        by auto
      from wait_for_tx_returns [OF this] obtain n where
        "if reports gw (sent w @ replicate n ?rq) ?rq ''confirmed''
         then fst y = Inr h
         else isl (fst y) \<and> \<not> non_confirming gw (sent w @ replicate n ?rq) ?rq"
        by auto
      with forever reports_confirmed_not_non_confirming [of gw "sent w @ replicate n ?rq" ?rq]
      show False
        by (auto split: if_splits)
    qed
  }
qed

theorem wait_for_tx_no_budget_witness:
  "wait_for_tx (gw_script (replicate 6 (status_response ''pending'')) (status_response ''confirmed''))
     ''http://rpc'' ''abc123'' (Some 0) w0
   = Some (Inr ''abc123'',
       stopLoading True (Some ''Transaction confirmed!'')
         (waited 6 (polled 7 (tx_request ''http://rpc'' ''abc123'')
            (createLoading ''Waiting for transaction confirmation...'' w0))))
   \<and> wait_for_tx (gw_const (status_response ''pending'')) ''http://rpc'' ''abc123'' (Some 0) w0 = None"
proof -
  let ?gw = "gw_script (replicate 6 (status_response ''pending'')) (status_response ''confirmed'')"
  let ?rq = "tx_request ''http://rpc'' ''abc123''"
  have "\<forall>i<6. non_confirming ?gw (sent w0 @ replicate i ?rq) ?rq"
    by (simp add: non_confirming_def gw_script_def status_response_def w0_def)
  moreover have "reports ?gw (sent w0 @ replicate 6 ?rq) ?rq ''confirmed''"
    by (simp add: reports_def gw_script_def status_response_def w0_def)
  moreover have "\<forall>i. non_confirming (gw_const (status_response ''pending'')) (sent w0 @ replicate i ?rq) ?rq"
    by (simp add: non_confirming_def gw_const_def status_response_def)
  ultimately show ?thesis
    using mp [OF spec [where x = 6,
                OF conjunct1 [OF wait_for_tx_no_budget [of ?gw w0 "''http://rpc''" "''abc123''"]]]]
          mp [OF conjunct1 [OF conjunct2 [OF wait_for_tx_no_budget
                [of "gw_const (status_response ''pending'')" w0 "''http://rpc''" "''abc123''"]]]]
    by simp
qed

text \<open>
  Claim C9 as stated fails: with \<open>max_wait_time = 0\<close> the loop also ends when a query
  fails. Here the first query gets no response, and the call ends after it with no
  \<open>confirmed\<close> answer.
\<close>

theorem wait_for_tx_no_budget_counterexample:
  "wait_for_tx (gw_const (Unreachable (AxiosError ''Network Error'')))
     ''http://rpc'' ''abc123'' (Some 0) w0
   = Some (Inl (AxiosError ''Network Error''),
       \<lparr>sent = [tx_request ''http://rpc'' ''abc123''],
        events = [SpinnerStart ''Waiting for transaction confirmation...''],
        clock = 1700000000000\<rparr>)
   \<and> \<not> reports (gw_const (Unreachable (AxiosError ''Network Error''))) []
          (tx_request ''http://rpc'' ''abc123'') ''confirmed''"
proof -
  let ?w = "createLoading ''Waiting for transaction confirmation...'' w0"
  have "wait_loop (gw_const (Unreachable (AxiosError ''Network Error'')))
          ''http://rpc'' ''abc123'' 0 0 ?w
        = Some (Inl (AxiosError ''Network Error''), polled 1 (tx_request ''http://rpc'' ''abc123'') ?w)"
    by (rule wait_loop_Unreachable) (simp add: gw_const_def)
  then show ?thesis
    by (simp add: wait_for_tx_def polled_def createLoading_def w0_def reports_def gw_const_def)
qed


end
